theory Spec2Isabelle
  imports Main "HOL-Library.Word"
begin

unbundle bit_operations_syntax

section \<open>The su client (native/jni/su/su.c)\<close>

text \<open>
  The client half of the su protocol: \<open>su_client_main\<close> builds the request, connects to
  the daemon, writes the request, probes the three standard streams, allocates a
  pseudo-terminal when one of them is a terminal, passes the descriptors, waits for the
  daemon's verdict, relays, and returns the exit code read from the daemon.
  \<open>sighandler\<close> and \<open>setup_sighandlers\<close> manage the quit signals.

  The functions of libc and of the other translation units of the repository
  (\<open>connect_daemon\<close>, \<open>isatty\<close>, \<open>pts_open\<close>, \<open>read_int\<close>, \<open>getpwnam\<close>) are not
  computed here: what each call returns is a field of the record \<open>world\<close>, and every
  call that acts on the outside is recorded as an \<open>event\<close> of the run, in program order.
\<close>

subsection \<open>C types and constants\<close>

text \<open>\<open>int\<close> and \<open>unsigned\<close> are 32 bits wide on every Android ABI; \<open>-1\<close> is the word of all ones.\<close>

type_synonym cint = "32 word"
type_synonym byte = "8 word"

definition sizeof_unsigned :: nat where
  "sizeof_unsigned = 4"

text \<open>unistd.h\<close>

definition STDIN_FILENO :: cint where "STDIN_FILENO = 0"
definition STDOUT_FILENO :: cint where "STDOUT_FILENO = 1"
definition STDERR_FILENO :: cint where "STDERR_FILENO = 2"

text \<open>signal.h (Linux numbering, the same on arm, arm64, x86 and x86_64)\<close>

definition SIGHUP :: cint where "SIGHUP = 1"
definition SIGINT :: cint where "SIGINT = 2"
definition SIGQUIT :: cint where "SIGQUIT = 3"
definition SIGABRT :: cint where "SIGABRT = 6"
definition SIGPIPE :: cint where "SIGPIPE = 13"
definition SIGALRM :: cint where "SIGALRM = 14"
definition SIGTERM :: cint where "SIGTERM = 15"

text \<open>
  Modelled from the spec: the macros \<open>ATTY_IN\<close>, \<open>ATTY_OUT\<close>, \<open>ATTY_ERR\<close> (declared in a
  header that is not under src/). The spec's StreamAttachment is three independent
  booleans, one per standard stream, kept by the code in one \<open>int\<close> with \<open>|=\<close> and read
  with \<open>&\<close>: three distinct single bits.
\<close>

definition ATTY_IN :: cint where "ATTY_IN = 1"
definition ATTY_OUT :: cint where "ATTY_OUT = 2"
definition ATTY_ERR :: cint where "ATTY_ERR = 4"

text \<open>\<open>strerror(EACCES)\<close> of the C library.\<close>

definition strerror_EACCES :: string where
  "strerror_EACCES = ''Permission denied''"

subsection \<open>The request\<close>

text \<open>
  Modelled from the spec: \<open>struct su_request\<close> (su.h is not under src/). The initialiser
  in \<open>su_client_main\<close> names its fields in this order, and the spec's ElevationRequest
  has the four scalars as fixed-width unsigned integers followed by the two strings.
\<close>

record su_request =
  uid :: cint
  login :: cint
  keepenv :: cint
  mount_master :: cint
  shell :: string
  command :: string

text \<open>The bytes of an \<open>unsigned\<close> in memory, least significant first (every Android ABI is little-endian).\<close>

definition le32 :: "cint \<Rightarrow> byte list" where
  "le32 v = [ucast v, ucast (drop_bit 8 v), ucast (drop_bit 16 v), ucast (drop_bit 24 v)]"

definition le32_decode :: "byte list \<Rightarrow> cint" where
  "le32_decode bs =
     ucast (bs ! 0) OR push_bit 8 (ucast (bs ! 1)) OR push_bit 16 (ucast (bs ! 2))
       OR push_bit 24 (ucast (bs ! 3))"

text \<open>
  The memory image of the struct: the four scalars one after the other, then the bytes of
  the two pointers \<open>ptrs\<close> (whatever they are).
\<close>

definition su_req_mem :: "su_request \<Rightarrow> byte list \<Rightarrow> byte list" where
  "su_req_mem r ptrs =
     le32 (uid r) @ le32 (login r) @ le32 (keepenv r) @ le32 (mount_master r) @ ptrs"

subsection \<open>The outside world and the events of a run\<close>

text \<open>
  The width of \<open>long\<close> depends on the ABI: 32 bits on arm and x86, 64 bits on arm64 and
  x86_64.
\<close>

datatype abi = ILP32 | LP64

record world =
  abi :: abi                              \<comment> \<open>the ABI the client is built for\<close>
  SUPERUSER :: cint                       \<comment> \<open>the request code of daemon.h\<close>
  DENY :: cint                            \<comment> \<open>the exit code of su.h\<close>
  getpwnam :: "string \<Rightarrow> cint option"     \<comment> \<open>\<open>pw_uid\<close> of the entry found, if any\<close>
  connect_daemon :: cint                  \<comment> \<open>the descriptor of the connection\<close>
  isatty :: "cint \<Rightarrow> bool"                \<comment> \<open>whether \<open>isatty(fd)\<close> is nonzero\<close>
  pts_open :: "cint \<times> string"             \<comment> \<open>the value returned and the string then in \<open>pts_slave\<close>\<close>
  ptmx_uninit :: cint                     \<comment> \<open>\<open>ptmx\<close> where it is never assigned\<close>
  read_int :: "nat \<Rightarrow> cint"               \<comment> \<open>the value of the k-th \<open>read_int\<close> on the connection\<close>
  ptr_bytes :: "byte list"                \<comment> \<open>the bytes of \<open>su_req.shell\<close> and \<open>su_req.command\<close>\<close>

text \<open>
  A signal handler (\<open>sa_handler\<close>) is the default disposition or the one handler function
  of the program, \<open>sighandler\<close>.
\<close>

datatype sa_handler = SIG_DFL | Fn_sighandler

datatype event =
    ConnectDaemon cint
  | WriteInt cint cint
  | XWrite cint "byte list"
  | WriteString cint string
  | Isatty cint
  | PtsOpen cint string
  | SendFd cint cint
  | ReadInt cint cint
  | Stderr string
  | SetupSighandlers sa_handler
  | PumpStdinAsync cint
  | WatchSigwinchAsync cint cint
  | PumpStdoutBlocking cint
  | Close cint

subsection \<open>\<open>atoi\<close>\<close>

fun long_max :: "abi \<Rightarrow> int" where
  "long_max ILP32 = 2 ^ 31 - 1"
| "long_max LP64 = 2 ^ 63 - 1"

definition long_min :: "abi \<Rightarrow> int" where
  "long_min a = - long_max a - 1"

text \<open>
  The C library's \<open>atoi(s)\<close> is \<open>(int) strtol(s, NULL, 10)\<close>. \<open>strtol\<close> skips leading white
  space, accepts one sign, and reads the decimal digits that follow up to the first
  character that is not a digit; with no digit there the value is 0. A value outside
  \<open>long\<close> is replaced by \<open>LONG_MAX\<close> or \<open>LONG_MIN\<close>. No error is reported to the caller of
  \<open>atoi\<close>. The conversion to \<open>int\<close>, and the assignment to the \<open>unsigned\<close> field, keep the
  low 32 bits.
\<close>

definition isspace :: "char \<Rightarrow> bool" where
  "isspace c \<longleftrightarrow> c = CHR '' '' \<or> (9 :: nat) \<le> of_char c \<and> of_char c \<le> (13 :: nat)"

definition isdigit :: "char \<Rightarrow> bool" where
  "isdigit c \<longleftrightarrow> (48 :: nat) \<le> of_char c \<and> of_char c \<le> (57 :: nat)"

fun strtol_digits :: "int \<Rightarrow> string \<Rightarrow> int" where
  "strtol_digits acc [] = acc"
| "strtol_digits acc (c # cs) =
     (if isdigit c then strtol_digits (acc * 10 + (of_char c - 48)) cs else acc)"

definition strtol :: "abi \<Rightarrow> string \<Rightarrow> int" where
  "strtol a s =
     (case dropWhile isspace s of
        [] \<Rightarrow> 0
      | c # cs \<Rightarrow>
          (let v = (if c = CHR ''-'' then - strtol_digits 0 cs
                    else if c = CHR ''+'' then strtol_digits 0 cs
                    else strtol_digits 0 (c # cs))
           in max (long_min a) (min (long_max a) v)))"

definition atoi :: "abi \<Rightarrow> string \<Rightarrow> cint" where
  "atoi a s = word_of_int (strtol a s)"

subsection \<open>\<open>su_client_main\<close>, from the end of option parsing\<close>

text \<open>
  Lines 171 to 184: \<open>argv\<close>, \<open>optind\<close> and \<open>su_req\<close> are as \<open>getopt_long\<close> and the option
  switch left them. A bare \<open>-\<close> sets the login flag; the next argument, if there is one,
  is the user name or uid.
\<close>

definition positional :: "world \<Rightarrow> string list \<Rightarrow> nat \<Rightarrow> su_request \<Rightarrow> su_request \<times> nat" where
  "positional w argv optind su_req =
     (let argc = length argv;
          (su_req, optind) =
            (if optind < argc \<and> argv ! optind = ''-''
             then (su_req\<lparr>login := 1\<rparr>, optind + 1) else (su_req, optind));
          (su_req, optind) =
            (if optind < argc
             then (su_req\<lparr>uid :=
                      (case getpwnam w (argv ! optind) of
                         Some pw_uid \<Rightarrow> pw_uid
                       | None \<Rightarrow> atoi (abi w) (argv ! optind))\<rparr>,
                   optind + 1)
             else (su_req, optind))
      in (su_req, optind))"

text \<open>Lines 200 to 204: the attachment probe.\<close>

definition probe_atty :: "world \<Rightarrow> cint" where
  "probe_atty w =
     (let atty = 0;
          atty = (if isatty w STDIN_FILENO then atty OR ATTY_IN else atty);
          atty = (if isatty w STDOUT_FILENO then atty OR ATTY_OUT else atty);
          atty = (if isatty w STDERR_FILENO then atty OR ATTY_ERR else atty)
      in atty)"

text \<open>
  Lines 186 to 245. The result is the events of the run in program order and the value
  returned. The value of \<open>pts_open\<close> is not tested by the code, and neither is it here.
\<close>

definition su_client_main ::
  "world \<Rightarrow> string list \<Rightarrow> nat \<Rightarrow> su_request \<Rightarrow> event list \<times> cint" where
  "su_client_main w argv optind su_req0 =
     (let (su_req, optind) = positional w argv optind su_req0;
          fd = connect_daemon w;
          t_req =
            [ConnectDaemon fd,
             WriteInt fd (SUPERUSER w),
             XWrite fd (take (4 * sizeof_unsigned) (su_req_mem su_req (ptr_bytes w))),
             WriteString fd (shell su_req),
             WriteString fd (command su_req)];
          atty = probe_atty w;
          t_probe = [Isatty STDIN_FILENO, Isatty STDOUT_FILENO, Isatty STDERR_FILENO];
          (ptmx, pts_slave, t_pts) =
            (if atty \<noteq> 0
             then (fst (pts_open w), snd (pts_open w),
                   [PtsOpen (fst (pts_open w)) (snd (pts_open w))])
             else (ptmx_uninit w, [], []));
          t_fds =
            [WriteString fd pts_slave,
             SendFd fd (if atty AND ATTY_IN \<noteq> 0 then - 1 else STDIN_FILENO),
             SendFd fd (if atty AND ATTY_OUT \<noteq> 0 then - 1 else STDOUT_FILENO),
             SendFd fd (if atty AND ATTY_ERR \<noteq> 0 then - 1 else STDERR_FILENO)];
          ack = read_int w 0;
          t_ack = [ReadInt fd ack]
      in if ack \<noteq> 0
         then (t_req @ t_probe @ t_pts @ t_fds @ t_ack
                 @ [Stderr (strerror_EACCES @ [CHR 0x0A])],
               DENY w)
         else
           (let t_in =
                  (if atty AND ATTY_IN \<noteq> 0
                   then [SetupSighandlers Fn_sighandler, PumpStdinAsync ptmx] else []);
                t_out =
                  (if atty AND ATTY_OUT \<noteq> 0
                   then [WatchSigwinchAsync STDOUT_FILENO ptmx, PumpStdoutBlocking ptmx]
                   else []);
                code = read_int w 1
            in (t_req @ t_probe @ t_pts @ t_fds @ t_ack @ t_in @ t_out
                  @ [ReadInt fd code, Close fd],
                code)))"

subsection \<open>Reading a run\<close>

fun is_relay :: "event \<Rightarrow> bool" where
  "is_relay (PumpStdinAsync _) = True"
| "is_relay (WatchSigwinchAsync _ _) = True"
| "is_relay (PumpStdoutBlocking _) = True"
| "is_relay _ = False"

fun is_pump :: "event \<Rightarrow> bool" where
  "is_pump (PumpStdinAsync _) = True"
| "is_pump (PumpStdoutBlocking _) = True"
| "is_pump _ = False"

fun is_read :: "event \<Rightarrow> bool" where
  "is_read (ReadInt _ _) = True"
| "is_read _ = False"

fun is_connect :: "event \<Rightarrow> bool" where
  "is_connect (ConnectDaemon _) = True"
| "is_connect _ = False"

fun is_probe :: "event \<Rightarrow> bool" where
  "is_probe (Isatty _) = True"
| "is_probe _ = False"

fun is_pts_open :: "event \<Rightarrow> bool" where
  "is_pts_open (PtsOpen _ _) = True"
| "is_pts_open _ = False"

fun is_setup :: "event \<Rightarrow> bool" where
  "is_setup (SetupSighandlers _) = True"
| "is_setup _ = False"

fun is_close :: "event \<Rightarrow> bool" where
  "is_close (Close _) = True"
| "is_close _ = False"

text \<open>What goes out on the connection: the byte writes and the descriptor messages.\<close>

fun is_conn_write :: "event \<Rightarrow> bool" where
  "is_conn_write (WriteInt _ _) = True"
| "is_conn_write (XWrite _ _) = True"
| "is_conn_write (WriteString _ _) = True"
| "is_conn_write (SendFd _ _) = True"
| "is_conn_write _ = False"

text \<open>The descriptors passed with \<open>send_fd\<close> and the strings passed to \<open>write_string\<close>, in order.\<close>

fun fds_sent :: "event list \<Rightarrow> cint list" where
  "fds_sent [] = []"
| "fds_sent (SendFd _ v # t) = v # fds_sent t"
| "fds_sent (_ # t) = fds_sent t"

fun strings_sent :: "event list \<Rightarrow> string list" where
  "strings_sent [] = []"
| "strings_sent (WriteString _ s # t) = s # strings_sent t"
| "strings_sent (_ # t) = strings_sent t"

text \<open>
  \<open>before P Q t\<close>: an event with \<open>P\<close> occurs in \<open>t\<close>, and no event with \<open>Q\<close> occurs ahead of
  the first of them.
\<close>

definition before :: "(event \<Rightarrow> bool) \<Rightarrow> (event \<Rightarrow> bool) \<Rightarrow> event list \<Rightarrow> bool" where
  "before P Q t \<longleftrightarrow>
     list_ex P t \<and> \<not> list_ex Q (takeWhile (\<lambda>e. \<not> P e) t)"

subsection \<open>Signals: \<open>quit_signals\<close>, \<open>sighandler\<close>, \<open>setup_sighandlers\<close>\<close>

text \<open>The array of line 32, with its terminating 0.\<close>

definition quit_signals :: "cint list" where
  "quit_signals = [SIGALRM, SIGABRT, SIGHUP, SIGPIPE, SIGQUIT, SIGTERM, SIGINT, 0]"

text \<open>The signals that the two loops over the array reach: those ahead of the first 0.\<close>

definition quit_list :: "cint list" where
  "quit_list = takeWhile (\<lambda>s. s \<noteq> 0) quit_signals"

text \<open>
  The process: the disposition of each signal, which descriptors are open, whether the
  terminal of standard input is in raw mode, how many times the handler function has
  been entered, and whether the process is still running.
\<close>

record proc =
  disposition :: "cint \<Rightarrow> sa_handler"
  fd_open :: "cint \<Rightarrow> bool"
  stdin_raw :: bool
  handler_runs :: nat
  alive :: bool

text \<open>
  The loop \<open>for (int i = 0; quit_signals[i]; ++i) sigaction(quit_signals[i], &act, NULL)\<close>
  over the rest of the array: it stops at the first 0.
\<close>

fun sigaction_loop :: "sa_handler \<Rightarrow> cint list \<Rightarrow> (cint \<Rightarrow> sa_handler) \<Rightarrow> cint \<Rightarrow> sa_handler" where
  "sigaction_loop act [] d = d"
| "sigaction_loop act (s # ss) d =
     (if s = 0 then d else sigaction_loop act ss (d(s := act)))"

text \<open>
  Modelled from the spec: \<open>restore_stdin\<close> (pts.c is not under src/). The spec's teardown
  step (a): it restores the real terminal to its original (pre-raw) mode if it had been
  put into raw mode for relaying.
\<close>

definition restore_stdin :: "proc \<Rightarrow> proc" where
  "restore_stdin p = (if stdin_raw p then p\<lparr>stdin_raw := False\<rparr> else p)"

definition close_fd :: "cint \<Rightarrow> proc \<Rightarrow> proc" where
  "close_fd fd p = p\<lparr>fd_open := (fd_open p)(fd := False)\<rparr>"

definition sighandler :: "cint \<Rightarrow> proc \<Rightarrow> proc" where
  "sighandler sig p =
     (let p = restore_stdin p;
          p = close_fd STDIN_FILENO p;
          p = close_fd STDOUT_FILENO p;
          p = close_fd STDERR_FILENO p;
          act = SIG_DFL
      in p\<lparr>disposition := sigaction_loop act quit_signals (disposition p)\<rparr>)"

definition setup_sighandlers :: "sa_handler \<Rightarrow> proc \<Rightarrow> proc" where
  "setup_sighandlers handler p =
     (let act = handler
      in p\<lparr>disposition := sigaction_loop act quit_signals (disposition p)\<rparr>)"

text \<open>
  The kernel delivers a signal to a running process (signal(7)): with a handler function
  installed the function is entered; with the default disposition the seven signals of
  \<open>quit_signals\<close> all terminate the process. Other signals are not delivered in this model.
\<close>

definition deliver :: "cint \<Rightarrow> proc \<Rightarrow> proc" where
  "deliver sig p =
     (if \<not> alive p \<or> sig \<notin> set quit_list then p
      else case disposition p sig of
             Fn_sighandler \<Rightarrow> sighandler sig (p\<lparr>handler_runs := handler_runs p + 1\<rparr>)
           | SIG_DFL \<Rightarrow> p\<lparr>alive := False\<rparr>)"

text \<open>
  What the events of \<open>su_client_main\<close> do to the process: \<open>setup_sighandlers\<close> installs
  its argument and \<open>close\<close> closes a descriptor.

  Modelled from the spec: the relay helpers \<open>pump_stdin_async\<close>, \<open>watch_sigwinch_async\<close>
  and \<open>pump_stdout_blocking\<close> (pts.c is not under src/). The spec's relay tasks copy
  bytes and forward window sizes, and only the teardown controller changes the
  dispositions of the quit signals: here these calls, like the writes and reads on the
  connection, leave the dispositions as they are.
\<close>

fun effect :: "event \<Rightarrow> proc \<Rightarrow> proc" where
  "effect (SetupSighandlers handler) p = setup_sighandlers handler p"
| "effect (Close fd) p = close_fd fd p"
| "effect _ p = p"

definition replay :: "event list \<Rightarrow> proc \<Rightarrow> proc" where
  "replay t p = fold effect t p"

text \<open>Armed: every quit signal is caught by the handler function.\<close>

definition armed :: "proc \<Rightarrow> bool" where
  "armed p \<longleftrightarrow> list_all (\<lambda>s. disposition p s = Fn_sighandler) quit_list"

definition tripped :: "proc \<Rightarrow> bool" where
  "tripped p \<longleftrightarrow> list_all (\<lambda>s. disposition p s = SIG_DFL) quit_list"

subsection \<open>Notions of the specification\<close>

text \<open>At least one of the three standard streams is a terminal.\<close>

definition any_tty :: "world \<Rightarrow> bool" where
  "any_tty w \<longleftrightarrow>
     isatty w STDIN_FILENO \<or> isatty w STDOUT_FILENO \<or> isatty w STDERR_FILENO"

text \<open>A reader of the sixteen bytes of the scalar record: four little-endian integers.\<close>

definition decode_scalars :: "byte list \<Rightarrow> cint list" where
  "decode_scalars bs =
     [le32_decode (take 4 bs), le32_decode (take 4 (drop 4 bs)),
      le32_decode (take 4 (drop 8 bs)), le32_decode (take 4 (drop 12 bs))]"







subsection \<open>Example runs\<close>

text \<open>
  A 64-bit world in which the daemon's connection is descriptor 3, the pseudo-terminal master is
  descriptor 4 with slave \<open>/dev/pts/0\<close>, the users \<open>root\<close> and \<open>shell\<close> exist, the daemon
  answers \<open>ack\<close> and then the exit status 42, and the three streams are terminals as the
  three booleans say.
\<close>

definition example_world :: "bool \<Rightarrow> bool \<Rightarrow> bool \<Rightarrow> cint \<Rightarrow> world" where
  "example_world tin tout terr ack =
     \<lparr>abi = LP64, SUPERUSER = 1, DENY = 1,
      getpwnam = (\<lambda>name. if name = ''root'' then Some 0
                          else if name = ''shell'' then Some 2000 else None),
      connect_daemon = 3,
      isatty = (\<lambda>fd. fd = 0 \<and> tin \<or> fd = 1 \<and> tout \<or> fd = 2 \<and> terr),
      pts_open = (4, ''/dev/pts/0''),
      ptmx_uninit = 77,
      read_int = (\<lambda>k. if k = 0 then ack else 42),
      ptr_bytes = replicate 8 0\<rparr>"

text \<open>
  The same world with no pseudo-terminal to be had: \<open>pts_open\<close> returns -1 and leaves the
  buffer \<open>pts_slave\<close>, which the client never initialised, as it was, here with a NUL
  byte first.
\<close>

definition no_pty_world :: "bool \<Rightarrow> bool \<Rightarrow> bool \<Rightarrow> cint \<Rightarrow> world" where
  "no_pty_world tin tout terr ack = (example_world tin tout terr ack)\<lparr>pts_open := (- 1, [])\<rparr>"

text \<open>The request of lines 115 to 122 with no option given.\<close>

definition default_req :: su_request where
  "default_req =
     \<lparr>uid = 0, login = 0, keepenv = 0, mount_master = 0,
      shell = ''/system/bin/sh'', command = []\<rparr>"

text \<open>
  A process with no handler installed: default dispositions, descriptors 0 to 4 open, and
  the terminal in raw mode.
\<close>

definition example_proc :: proc where
  "example_proc =
     \<lparr>disposition = (\<lambda>_. SIG_DFL),
      fd_open = (\<lambda>fd. fd = 0 \<or> fd = 1 \<or> fd = 2 \<or> fd = 3 \<or> fd = 4),
      stdin_raw = True, handler_runs = 0, alive = True\<rparr>"

subsection \<open>The shape of a run\<close>

text \<open>
  The events up to and including the read of the daemon's verdict, written with the
  answers of \<open>isatty\<close> in place of the bits of \<open>atty\<close>; \<open>r\<close> is the request as sent.
\<close>

definition t_handshake :: "world \<Rightarrow> su_request \<Rightarrow> event list" where
  "t_handshake w r =
     [ConnectDaemon (connect_daemon w),
      WriteInt (connect_daemon w) (SUPERUSER w),
      XWrite (connect_daemon w)
        (le32 (uid r) @ le32 (login r) @ le32 (keepenv r) @ le32 (mount_master r)),
      WriteString (connect_daemon w) (shell r),
      WriteString (connect_daemon w) (command r),
      Isatty STDIN_FILENO, Isatty STDOUT_FILENO, Isatty STDERR_FILENO]
     @ (if any_tty w then [PtsOpen (fst (pts_open w)) (snd (pts_open w))] else [])
     @ [WriteString (connect_daemon w) (if any_tty w then snd (pts_open w) else []),
        SendFd (connect_daemon w) (if isatty w STDIN_FILENO then - 1 else STDIN_FILENO),
        SendFd (connect_daemon w) (if isatty w STDOUT_FILENO then - 1 else STDOUT_FILENO),
        SendFd (connect_daemon w) (if isatty w STDERR_FILENO then - 1 else STDERR_FILENO),
        ReadInt (connect_daemon w) (read_int w 0)]"

text \<open>The relay calls of an admitted run.\<close>

definition t_relay :: "world \<Rightarrow> event list" where
  "t_relay w =
     (if isatty w STDIN_FILENO
      then [SetupSighandlers Fn_sighandler, PumpStdinAsync (fst (pts_open w))] else [])
     @ (if isatty w STDOUT_FILENO
        then [WatchSigwinchAsync STDOUT_FILENO (fst (pts_open w)),
              PumpStdoutBlocking (fst (pts_open w))]
        else [])"

section \<open>Properties\<close>

subsection \<open>The attachment bits\<close>

lemma atty_in: "probe_atty w AND ATTY_IN \<noteq> 0 \<longleftrightarrow> isatty w STDIN_FILENO"
  by (simp add: probe_atty_def ATTY_IN_def ATTY_OUT_def ATTY_ERR_def)

lemma atty_out: "probe_atty w AND ATTY_OUT \<noteq> 0 \<longleftrightarrow> isatty w STDOUT_FILENO"
  by (simp add: probe_atty_def ATTY_IN_def ATTY_OUT_def ATTY_ERR_def)

lemma atty_err: "probe_atty w AND ATTY_ERR \<noteq> 0 \<longleftrightarrow> isatty w STDERR_FILENO"
  by (simp add: probe_atty_def ATTY_IN_def ATTY_OUT_def ATTY_ERR_def)

lemma atty_nonzero: "probe_atty w \<noteq> 0 \<longleftrightarrow> any_tty w"
  by (simp add: probe_atty_def any_tty_def ATTY_IN_def ATTY_OUT_def ATTY_ERR_def)

lemmas atty_simps = atty_in atty_out atty_err atty_nonzero

lemmas fileno_defs = STDIN_FILENO_def STDOUT_FILENO_def STDERR_FILENO_def

subsection \<open>The scalar record\<close>

lemma le32_roundtrip: "le32_decode (le32 v) = v"
proof (rule bit_word_eqI)
  fix n :: nat
  assume "n < LENGTH(32)"
  then consider "n < 8" | "8 \<le> n" "n < 16" | "16 \<le> n" "n < 24" | "24 \<le> n" "n < 32"
    by fastforce
  then show "bit (le32_decode (le32 v)) n = bit v n"
    by cases (auto simp add: le32_def le32_decode_def bit_simps)
qed

lemma length_le32: "length (le32 v) = 4"
  by (simp add: le32_def)

lemma xwrite_payload:
  "take (4 * sizeof_unsigned) (su_req_mem r ptrs)
     = le32 (uid r) @ le32 (login r) @ le32 (keepenv r) @ le32 (mount_master r)"
  by (simp add: su_req_mem_def sizeof_unsigned_def length_le32)

lemma decode_scalars_payload:
  "decode_scalars (le32 a @ le32 b @ le32 c @ le32 d) = [a, b, c, d]"
  by (simp add: decode_scalars_def length_le32 le32_roundtrip)

subsection \<open>Every run is a handshake, then a denial or a relay\<close>

lemma run_denied:
  assumes "read_int w 0 \<noteq> 0"
  shows "su_client_main w argv optind req =
     (t_handshake w (fst (positional w argv optind req))
        @ [Stderr (strerror_EACCES @ [CHR 0x0A])],
      DENY w)"
  using assms
  by (simp add: su_client_main_def t_handshake_def Let_def case_prod_beta atty_simps
      xwrite_payload)

lemma run_admitted:
  assumes "read_int w 0 = 0"
  shows "su_client_main w argv optind req =
     (t_handshake w (fst (positional w argv optind req)) @ t_relay w
        @ [ReadInt (connect_daemon w) (read_int w 1), Close (connect_daemon w)],
      read_int w 1)"
  using assms
  by (auto simp add: su_client_main_def t_handshake_def t_relay_def Let_def case_prod_beta
      atty_simps xwrite_payload any_tty_def)

lemma run_cases:
  obtains (denied) "read_int w 0 \<noteq> 0"
      "su_client_main w argv optind req =
         (t_handshake w (fst (positional w argv optind req))
            @ [Stderr (strerror_EACCES @ [CHR 0x0A])], DENY w)"
    | (admitted) "read_int w 0 = 0"
      "su_client_main w argv optind req =
         (t_handshake w (fst (positional w argv optind req)) @ t_relay w
            @ [ReadInt (connect_daemon w) (read_int w 1), Close (connect_daemon w)],
          read_int w 1)"
  using run_denied run_admitted by blast

text \<open>Unfolding everything, for the runs in the example world.\<close>

lemmas example_defs = example_world_def default_req_def

lemmas run_defs = su_client_main_def positional_def probe_atty_def Let_def
  su_req_mem_def le32_def sizeof_unsigned_def fileno_defs ATTY_IN_def ATTY_OUT_def
  ATTY_ERR_def strerror_EACCES_def

subsection \<open>What the handshake and the relay contain\<close>

lemma fds_sent_append: "fds_sent (xs @ ys) = fds_sent xs @ fds_sent ys"
  by (induction xs rule: fds_sent.induct) simp_all

lemma strings_sent_append: "strings_sent (xs @ ys) = strings_sent xs @ strings_sent ys"
  by (induction xs rule: strings_sent.induct) simp_all

lemma fds_sent_handshake:
  "fds_sent (t_handshake w r) =
     [if isatty w STDIN_FILENO then - 1 else STDIN_FILENO,
      if isatty w STDOUT_FILENO then - 1 else STDOUT_FILENO,
      if isatty w STDERR_FILENO then - 1 else STDERR_FILENO]"
  by (simp add: t_handshake_def)

lemma fds_sent_relay: "fds_sent (t_relay w) = []"
  by (simp add: t_relay_def)

lemma strings_sent_handshake:
  "strings_sent (t_handshake w r) =
     [shell r, command r, if any_tty w then snd (pts_open w) else []]"
  by (simp add: t_handshake_def)

lemma strings_sent_relay: "strings_sent (t_relay w) = []"
  by (simp add: t_relay_def)

lemma conn_writes_handshake:
  "filter is_conn_write (t_handshake w r) =
     [WriteInt (connect_daemon w) (SUPERUSER w),
      XWrite (connect_daemon w)
        (le32 (uid r) @ le32 (login r) @ le32 (keepenv r) @ le32 (mount_master r)),
      WriteString (connect_daemon w) (shell r),
      WriteString (connect_daemon w) (command r),
      WriteString (connect_daemon w) (if any_tty w then snd (pts_open w) else []),
      SendFd (connect_daemon w) (if isatty w STDIN_FILENO then - 1 else STDIN_FILENO),
      SendFd (connect_daemon w) (if isatty w STDOUT_FILENO then - 1 else STDOUT_FILENO),
      SendFd (connect_daemon w) (if isatty w STDERR_FILENO then - 1 else STDERR_FILENO)]"
  by (simp add: t_handshake_def)

lemma conn_writes_relay: "filter is_conn_write (t_relay w) = []"
  by (simp add: t_relay_def)

lemma connects_handshake:
  "filter is_connect (t_handshake w r) = [ConnectDaemon (connect_daemon w)]"
  by (simp add: t_handshake_def)

lemma connects_relay: "filter is_connect (t_relay w) = []"
  by (simp add: t_relay_def)

lemma relay_handshake: "filter is_relay (t_handshake w r) = []"
  by (simp add: t_handshake_def)

lemma reads_handshake:
  "filter is_read (t_handshake w r) = [ReadInt (connect_daemon w) (read_int w 0)]"
  by (simp add: t_handshake_def)

lemma reads_relay: "filter is_read (t_relay w) = []"
  by (simp add: t_relay_def)

lemma setup_handshake: "filter is_setup (t_handshake w r) = []"
  by (simp add: t_handshake_def)

lemma pts_opens_handshake:
  "filter is_pts_open (t_handshake w r) =
     (if any_tty w then [PtsOpen (fst (pts_open w)) (snd (pts_open w))] else [])"
  by (simp add: t_handshake_def)

lemma pts_opens_relay: "filter is_pts_open (t_relay w) = []"
  by (simp add: t_relay_def)

lemma ex_pts_open_handshake: "list_ex is_pts_open (t_handshake w r) \<longleftrightarrow> any_tty w"
  by (simp add: t_handshake_def)

lemma ex_pts_open_relay: "\<not> list_ex is_pts_open (t_relay w)"
  by (simp add: t_relay_def)

lemma closes_handshake: "filter is_close (t_handshake w r) = []"
  by (simp add: t_handshake_def)

lemma closes_relay: "filter is_close (t_relay w) = []"
  by (simp add: t_relay_def)

lemma no_relay_handshake: "x \<in> set (t_handshake w r) \<Longrightarrow> \<not> is_relay x"
  using relay_handshake [of w r] by (simp add: filter_empty_conv)

lemma setup_relay:
  "filter is_setup (t_relay w) =
     (if isatty w STDIN_FILENO then [SetupSighandlers Fn_sighandler] else [])"
  by (simp add: t_relay_def)

lemma take_handshake:
  assumes "any_tty w"
  shows "take 10 (t_handshake w r @ rest) =
     [ConnectDaemon (connect_daemon w),
      WriteInt (connect_daemon w) (SUPERUSER w),
      XWrite (connect_daemon w)
        (le32 (uid r) @ le32 (login r) @ le32 (keepenv r) @ le32 (mount_master r)),
      WriteString (connect_daemon w) (shell r),
      WriteString (connect_daemon w) (command r),
      Isatty STDIN_FILENO, Isatty STDOUT_FILENO, Isatty STDERR_FILENO,
      PtsOpen (fst (pts_open w)) (snd (pts_open w)),
      WriteString (connect_daemon w) (snd (pts_open w))]"
  using assms by (simp add: t_handshake_def)

lemma before_handshake:
  assumes "any_tty w"
  shows "before is_connect is_pts_open (t_handshake w r @ rest)"
    and "before is_probe is_pts_open (t_handshake w r @ rest)"
    and "\<not> before is_pts_open is_connect (t_handshake w r @ rest)"
  using assms by (simp_all add: before_def t_handshake_def)

subsection \<open>The signal table\<close>

lemmas signal_defs = SIGALRM_def SIGABRT_def SIGHUP_def SIGPIPE_def SIGQUIT_def
  SIGTERM_def SIGINT_def

lemmas proc_defs = example_proc_def setup_sighandlers_def sighandler_def deliver_def
  restore_stdin_def close_fd_def armed_def tripped_def quit_list_def quit_signals_def
  signal_defs

lemma quit_list_eq:
  "quit_list = [SIGALRM, SIGABRT, SIGHUP, SIGPIPE, SIGQUIT, SIGTERM, SIGINT]"
  by (simp add: quit_list_def quit_signals_def signal_defs)

text \<open>The loop sets the disposition of exactly the signals ahead of the first 0.\<close>

lemma sigaction_loop_apply:
  "sigaction_loop act sigs d s =
     (if s \<in> set (takeWhile (\<lambda>x. x \<noteq> 0) sigs) then act else d s)"
  by (induction sigs arbitrary: d) auto

lemma sigaction_loop_quit:
  "sigaction_loop act quit_signals d s = (if s \<in> set quit_list then act else d s)"
  by (simp add: sigaction_loop_apply quit_list_def)

lemma armed_setup: "armed (setup_sighandlers Fn_sighandler p)"
  by (simp add: armed_def setup_sighandlers_def sigaction_loop_quit list_all_iff)

lemma tripped_sighandler: "tripped (sighandler sig p)"
  by (simp add: tripped_def sighandler_def Let_def sigaction_loop_quit list_all_iff)

lemma sighandler_fields:
  "\<not> stdin_raw (sighandler sig p)"
  "\<not> fd_open (sighandler sig p) STDIN_FILENO"
  "\<not> fd_open (sighandler sig p) STDOUT_FILENO"
  "\<not> fd_open (sighandler sig p) STDERR_FILENO"
  "alive (sighandler sig p) = alive p"
  "handler_runs (sighandler sig p) = handler_runs p"
  by (simp_all add: sighandler_def Let_def restore_stdin_def close_fd_def)

lemma deliver_armed:
  assumes "armed p" and "alive p" and "s \<in> set quit_list"
  shows "deliver s p = sighandler s (p\<lparr>handler_runs := handler_runs p + 1\<rparr>)"
  using assms by (auto simp add: deliver_def armed_def list_all_iff)

lemma deliver_tripped:
  assumes "tripped p" and "s \<in> set quit_list"
  shows "deliver s p = (if alive p then p\<lparr>alive := False\<rparr> else p)"
  using assms by (auto simp add: deliver_def tripped_def list_all_iff)

text \<open>Once tripped or dead, a process never enters the handler function again.\<close>

lemma deliver_after_trip:
  assumes "tripped p \<or> \<not> alive p"
  shows "handler_runs (deliver s p) = handler_runs p"
    and "tripped (deliver s p) \<or> \<not> alive (deliver s p)"
  using assms
  by (auto simp add: deliver_def tripped_def list_all_iff split: sa_handler.splits)

lemma fold_deliver_after_trip:
  assumes "tripped p \<or> \<not> alive p"
  shows "handler_runs (fold deliver sigs p) = handler_runs p"
  using assms
proof (induction sigs arbitrary: p)
  case Nil
  then show ?case by simp
next
  case (Cons s sigs)
  have "handler_runs (deliver s p) = handler_runs p"
    and "tripped (deliver s p) \<or> \<not> alive (deliver s p)"
    using deliver_after_trip [OF Cons.prems] by simp_all
  with Cons.IH [of "deliver s p"] show ?case by simp
qed

subsection \<open>Replaying the events of a run on the process\<close>

lemma replay_append: "replay (xs @ ys) p = replay ys (replay xs p)"
  by (simp add: replay_def)

lemma replay_Cons: "replay (e # t) p = replay t (effect e p)"
  by (simp add: replay_def)

lemma effect_fields:
  "alive (effect e p) = alive p"
  "handler_runs (effect e p) = handler_runs p"
  by (cases e; simp add: setup_sighandlers_def close_fd_def)+

lemma replay_fields:
  "alive (replay t p) = alive p"
  "handler_runs (replay t p) = handler_runs p"
  by (induction t arbitrary: p; simp add: replay_def effect_fields)+

text \<open>Calls other than \<open>setup_sighandlers\<close> keep the handler installed.\<close>

lemma armed_effect: "armed p \<Longrightarrow> \<not> is_setup e \<Longrightarrow> armed (effect e p)"
  by (cases e) (simp_all add: armed_def close_fd_def)

lemma armed_replay: "armed p \<Longrightarrow> \<forall>e\<in>set t. \<not> is_setup e \<Longrightarrow> armed (replay t p)"
  by (induction t arbitrary: p) (simp_all add: replay_def armed_effect)

subsection \<open>\<open>atoi\<close> and the uid\<close>

















subsection \<open>Every run, whether or not \<open>pts_open\<close> allocated\<close>

lemma run_fds_sent:
  "fds_sent (fst (su_client_main w argv optind req)) =
     [if isatty w STDIN_FILENO then - 1 else STDIN_FILENO,
      if isatty w STDOUT_FILENO then - 1 else STDOUT_FILENO,
      if isatty w STDERR_FILENO then - 1 else STDERR_FILENO]"
  by (cases rule: run_cases [of w argv optind req])
    (simp_all add: fds_sent_append fds_sent_handshake fds_sent_relay)

lemma run_strings_sent:
  "strings_sent (fst (su_client_main w argv optind req)) =
     [shell (fst (positional w argv optind req)),
      command (fst (positional w argv optind req)),
      if any_tty w then snd (pts_open w) else []]"
  by (cases rule: run_cases [of w argv optind req])
    (simp_all add: strings_sent_append strings_sent_handshake strings_sent_relay)

lemma run_pts_open_calls:
  "filter is_pts_open (fst (su_client_main w argv optind req)) =
     (if any_tty w then [PtsOpen (fst (pts_open w)) (snd (pts_open w))] else [])"
  by (cases rule: run_cases [of w argv optind req])
    (simp_all add: pts_opens_handshake pts_opens_relay)

lemma run_stderr_only:
  assumes "read_int w 0 = 0"
    and "\<not> isatty w STDIN_FILENO" and "\<not> isatty w STDOUT_FILENO" and "isatty w STDERR_FILENO"
  shows "su_client_main w argv optind req =
     (let r = fst (positional w argv optind req); fd = connect_daemon w in
        ([ConnectDaemon fd,
          WriteInt fd (SUPERUSER w),
          XWrite fd (le32 (uid r) @ le32 (login r) @ le32 (keepenv r) @ le32 (mount_master r)),
          WriteString fd (shell r),
          WriteString fd (command r),
          Isatty STDIN_FILENO, Isatty STDOUT_FILENO, Isatty STDERR_FILENO,
          PtsOpen (fst (pts_open w)) (snd (pts_open w)),
          WriteString fd (snd (pts_open w)),
          SendFd fd STDIN_FILENO, SendFd fd STDOUT_FILENO, SendFd fd (- 1),
          ReadInt fd 0,
          ReadInt fd (read_int w 1),
          Close fd],
         read_int w 1))"
  using assms
  by (simp add: run_admitted [OF assms(1)] t_handshake_def t_relay_def any_tty_def Let_def)

section \<open>The claims\<close>

text \<open>
  C1. The code breaks the claim where the allocation fails. In every run the descriptors
  passed are the sentinel \<open>-1\<close> for a stream that is a terminal and the stream's own
  descriptor otherwise, in the order input, output, error, and the slave path written is
  empty when no stream is a terminal (\<open>run_fds_sent\<close>, \<open>run_strings_sent\<close>). But the value
  of \<open>pts_open\<close> is never tested (line 208), so a run goes on after a failed allocation:
  with standard input a terminal and no pseudo-terminal to be had, the client passes the
  sentinel for standard input and writes an empty slave path.
\<close>

theorem C1_sentinel_with_empty_slave_path:
  "isatty (no_pty_world True False False 0) STDIN_FILENO
   \<and> pts_open (no_pty_world True False False 0) = (- 1, [])
   \<and> fds_sent (fst (su_client_main (no_pty_world True False False 0) [''su''] 1 default_req))
       = [- 1, 1, 2]
   \<and> strings_sent (fst (su_client_main (no_pty_world True False False 0) [''su''] 1 default_req))
       = [''/system/bin/sh'', [], []]"
  by (simp add: no_pty_world_def example_defs run_defs)

text \<open>
  C2. Every run opens one connection and sends one request on it. What goes out on the
  connection is, in this order: the request code; the sixteen bytes of the four scalars
  uid, login, keepenv, mount_master, four bytes each and nothing between them, which a
  reader of four integers decodes to the same values; the shell and the command, each
  with \<open>write_string\<close>; the slave path, with \<open>write_string\<close>; and then the three descriptor
  messages. No descriptor is passed ahead of any of the writes.
\<close>

theorem C2_request_order:
  "case su_client_main w argv optind req of (t, rc) \<Rightarrow>
     (let r = fst (positional w argv optind req);
          fd = connect_daemon w;
          scalars = le32 (uid r) @ le32 (login r) @ le32 (keepenv r) @ le32 (mount_master r)
      in filter is_connect t = [ConnectDaemon fd]
       \<and> filter is_conn_write t =
           [WriteInt fd (SUPERUSER w),
            XWrite fd scalars,
            WriteString fd (shell r),
            WriteString fd (command r),
            WriteString fd (if any_tty w then snd (pts_open w) else []),
            SendFd fd (if isatty w STDIN_FILENO then - 1 else STDIN_FILENO),
            SendFd fd (if isatty w STDOUT_FILENO then - 1 else STDOUT_FILENO),
            SendFd fd (if isatty w STDERR_FILENO then - 1 else STDERR_FILENO)]
       \<and> length scalars = 4 * sizeof_unsigned
       \<and> decode_scalars scalars = [uid r, login r, keepenv r, mount_master r])"
proof (cases rule: run_cases [of w argv optind req])
  case denied
  then show ?thesis
    by (simp add: Let_def conn_writes_handshake connects_handshake length_le32
        sizeof_unsigned_def decode_scalars_payload)
next
  case admitted
  then show ?thesis
    by (simp add: Let_def conn_writes_handshake connects_handshake conn_writes_relay
        connects_relay length_le32 sizeof_unsigned_def decode_scalars_payload)
qed

theorem C2_request_order_witness:
  "filter is_conn_write
     (fst (su_client_main (example_world False True False 0) [''su'', ''shell''] 1 default_req))
   = [WriteInt 3 1,
      XWrite 3 [208, 7, 0, 0, 0, 0, 0, 0, 0, 0, 0, 0, 0, 0, 0, 0],
      WriteString 3 ''/system/bin/sh'', WriteString 3 [],
      WriteString 3 ''/dev/pts/0'',
      SendFd 3 0, SendFd 3 (- 1), SendFd 3 2]"
  using C2_request_order [of "example_world False True False 0" "[''su'', ''shell'']" 1 default_req]
  by (simp add: any_tty_def example_defs run_defs)

text \<open>
  C3. When the verdict read from the daemon is not zero, the client prints the message of
  \<open>EACCES\<close> on standard error and returns \<open>DENY\<close>. That message is the last event of the
  run: no relay task is started, no signal handler is installed, and the verdict is the
  only integer read from the connection.
\<close>

theorem C3_denial:
  assumes "read_int w 0 \<noteq> 0"
  shows "case su_client_main w argv optind req of (t, rc) \<Rightarrow>
           rc = DENY w
         \<and> last t = Stderr (strerror_EACCES @ [CHR 0x0A])
         \<and> filter is_relay t = []
         \<and> filter is_setup t = []
         \<and> filter is_read t = [ReadInt (connect_daemon w) (read_int w 0)]"
  by (simp add: run_denied [OF assms] relay_handshake reads_handshake setup_handshake)

theorem C3_denial_witness:
  "read_int (example_world True True True 1) 0 \<noteq> 0
   \<and> su_client_main (example_world True True True 1) [''su''] 1 default_req =
       ([ConnectDaemon 3, WriteInt 3 1,
         XWrite 3 [0, 0, 0, 0, 0, 0, 0, 0, 0, 0, 0, 0, 0, 0, 0, 0],
         WriteString 3 ''/system/bin/sh'', WriteString 3 [],
         Isatty 0, Isatty 1, Isatty 2, PtsOpen 4 ''/dev/pts/0'',
         WriteString 3 ''/dev/pts/0'', SendFd 3 (- 1), SendFd 3 (- 1), SendFd 3 (- 1),
         ReadInt 3 1, Stderr (''Permission denied'' @ [CHR 0x0A])], 1)"
  using C3_denial [of "example_world True True True 1" "[''su'']" 1 default_req]
  by (simp add: example_defs run_defs)

text \<open>
  C4. In an admitted run the read of the final status is the last but one event, followed
  only by the close of the connection. Ahead of it lie the read of the verdict, the only
  other read, and every relay call of the run: the output pump
  \<open>pump_stdout_blocking\<close>, which is called exactly when standard output is a terminal,
  has been called and has returned. The integer read is the value returned.
\<close>

theorem C4_final_status:
  assumes "read_int w 0 = 0"
  shows "case su_client_main w argv optind req of (t, rc) \<Rightarrow>
           \<exists>pre. t = pre @ [ReadInt (connect_daemon w) rc, Close (connect_daemon w)]
               \<and> filter is_read pre = [ReadInt (connect_daemon w) (read_int w 0)]
               \<and> filter is_relay pre =
                   (if isatty w STDIN_FILENO then [PumpStdinAsync (fst (pts_open w))] else [])
                   @ (if isatty w STDOUT_FILENO
                      then [WatchSigwinchAsync STDOUT_FILENO (fst (pts_open w)),
                            PumpStdoutBlocking (fst (pts_open w))]
                      else [])
               \<and> (PumpStdoutBlocking (fst (pts_open w)) \<in> set pre \<longleftrightarrow> isatty w STDOUT_FILENO)
               \<and> rc = read_int w 1"
proof -
  let ?pre = "t_handshake w (fst (positional w argv optind req)) @ t_relay w"
  have "filter is_read ?pre = [ReadInt (connect_daemon w) (read_int w 0)]"
    by (simp add: reads_handshake reads_relay)
  moreover have "filter is_relay ?pre =
      (if isatty w STDIN_FILENO then [PumpStdinAsync (fst (pts_open w))] else [])
      @ (if isatty w STDOUT_FILENO
         then [WatchSigwinchAsync STDOUT_FILENO (fst (pts_open w)),
               PumpStdoutBlocking (fst (pts_open w))]
         else [])"
    by (simp add: relay_handshake) (simp add: t_relay_def)
  moreover have "PumpStdoutBlocking (fst (pts_open w)) \<in> set ?pre \<longleftrightarrow> isatty w STDOUT_FILENO"
    by (simp add: t_handshake_def t_relay_def)
  ultimately show ?thesis
    by (simp add: run_admitted [OF assms])
qed

theorem C4_final_status_witness:
  "read_int (example_world True True False 0) 0 = 0
   \<and> su_client_main (example_world True True False 0) [''su''] 1 default_req =
       ([ConnectDaemon 3, WriteInt 3 1,
         XWrite 3 [0, 0, 0, 0, 0, 0, 0, 0, 0, 0, 0, 0, 0, 0, 0, 0],
         WriteString 3 ''/system/bin/sh'', WriteString 3 [],
         Isatty 0, Isatty 1, Isatty 2, PtsOpen 4 ''/dev/pts/0'',
         WriteString 3 ''/dev/pts/0'', SendFd 3 (- 1), SendFd 3 (- 1), SendFd 3 2,
         ReadInt 3 0, SetupSighandlers Fn_sighandler, PumpStdinAsync 4,
         WatchSigwinchAsync 1 4, PumpStdoutBlocking 4] @ [ReadInt 3 42, Close 3], 42)"
  using C4_final_status [of "example_world True True False 0" "[''su'']" 1 default_req]
  by (simp add: example_defs run_defs)

text \<open>
  C5. The code breaks the claim where the allocation fails. In every run \<open>pts_open\<close> is
  called exactly when at least one of the three standard streams is a terminal, and then
  once; with no terminal there is no call and the slave path written is empty
  (\<open>run_pts_open_calls\<close>, \<open>run_strings_sent\<close>). But a call that fails creates no session,
  and, its value never tested (line 208), the run goes on without one: with standard
  input and standard output terminals and no pseudo-terminal to be had, the client
  writes an empty slave path with two sentinels and, once admitted, hands the
  descriptor \<open>-1\<close> to both pumps and to the resize watcher.
\<close>

theorem C5_run_goes_on_without_session:
  "any_tty (no_pty_world True True False 0)
   \<and> pts_open (no_pty_world True True False 0) = (- 1, [])
   \<and> su_client_main (no_pty_world True True False 0) [''su''] 1 default_req =
       ([ConnectDaemon 3, WriteInt 3 1,
         XWrite 3 [0, 0, 0, 0, 0, 0, 0, 0, 0, 0, 0, 0, 0, 0, 0, 0],
         WriteString 3 ''/system/bin/sh'', WriteString 3 [],
         Isatty 0, Isatty 1, Isatty 2, PtsOpen (- 1) [],
         WriteString 3 [], SendFd 3 (- 1), SendFd 3 (- 1), SendFd 3 2,
         ReadInt 3 0, SetupSighandlers Fn_sighandler, PumpStdinAsync (- 1),
         WatchSigwinchAsync 1 (- 1), PumpStdoutBlocking (- 1),
         ReadInt 3 42, Close 3], 42)"
  by (simp add: any_tty_def no_pty_world_def example_defs run_defs)

text \<open>
  C6. In a running process in which the handler function is installed for the seven quit
  signals (interrupt, hangup, quit, terminate, alarm, abort, broken pipe), the delivery of
  any of them enters the handler once: afterwards the terminal is out of raw mode, the
  descriptors 0, 1 and 2 are closed, all seven signals have the default disposition, and
  the process is still running. The delivery of a second such signal terminates the
  process without entering the handler, and no later delivery, of any signals in any
  number, enters it again.
\<close>

theorem C6_teardown_once:
  assumes "armed p" and "alive p" and "s1 \<in> set quit_list" and "s2 \<in> set quit_list"
  shows "set quit_list = {SIGINT, SIGHUP, SIGQUIT, SIGTERM, SIGALRM, SIGABRT, SIGPIPE}
    \<and> handler_runs (deliver s1 p) = handler_runs p + 1
    \<and> \<not> stdin_raw (deliver s1 p)
    \<and> \<not> fd_open (deliver s1 p) STDIN_FILENO
    \<and> \<not> fd_open (deliver s1 p) STDOUT_FILENO
    \<and> \<not> fd_open (deliver s1 p) STDERR_FILENO
    \<and> tripped (deliver s1 p)
    \<and> alive (deliver s1 p)
    \<and> \<not> alive (deliver s2 (deliver s1 p))
    \<and> handler_runs (deliver s2 (deliver s1 p)) = handler_runs p + 1
    \<and> (\<forall>sigs. handler_runs (fold deliver sigs (deliver s1 p)) = handler_runs p + 1)"
proof -
  let ?p1 = "deliver s1 p"
  have p1: "?p1 = sighandler s1 (p\<lparr>handler_runs := handler_runs p + 1\<rparr>)"
    using assms(1-3) by (rule deliver_armed)
  have trip: "tripped ?p1"
    unfolding p1 by (rule tripped_sighandler)
  have runs: "handler_runs ?p1 = handler_runs p + 1"
    unfolding p1 by (simp add: sighandler_fields)
  have live: "alive ?p1"
    unfolding p1 using assms(2) by (simp add: sighandler_fields)
  have p2: "deliver s2 ?p1 = ?p1\<lparr>alive := False\<rparr>"
    using deliver_tripped [OF trip assms(4)] live by simp
  have later: "\<forall>sigs. handler_runs (fold deliver sigs ?p1) = handler_runs p + 1"
    using fold_deliver_after_trip [of ?p1] trip runs by simp
  have sigs: "set quit_list = {SIGINT, SIGHUP, SIGQUIT, SIGTERM, SIGALRM, SIGABRT, SIGPIPE}"
    by (auto simp add: quit_list_eq)
  have closed: "\<not> stdin_raw ?p1" "\<not> fd_open ?p1 STDIN_FILENO"
    "\<not> fd_open ?p1 STDOUT_FILENO" "\<not> fd_open ?p1 STDERR_FILENO"
    unfolding p1 by (simp_all add: sighandler_fields)
  show ?thesis
    using sigs trip runs live later closed by (simp add: p2)
qed

theorem C6_teardown_once_witness:
  "armed (setup_sighandlers Fn_sighandler example_proc)
   \<and> alive (setup_sighandlers Fn_sighandler example_proc)
   \<and> SIGINT \<in> set quit_list \<and> SIGTERM \<in> set quit_list
   \<and> stdin_raw (setup_sighandlers Fn_sighandler example_proc)
   \<and> \<not> stdin_raw (deliver SIGINT (setup_sighandlers Fn_sighandler example_proc))
   \<and> tripped (deliver SIGINT (setup_sighandlers Fn_sighandler example_proc))
   \<and> handler_runs
        (deliver SIGTERM (deliver SIGINT (setup_sighandlers Fn_sighandler example_proc))) = 1
   \<and> \<not> alive (deliver SIGTERM (deliver SIGINT (setup_sighandlers Fn_sighandler example_proc)))"
  using C6_teardown_once [of "setup_sighandlers Fn_sighandler example_proc" SIGINT SIGTERM]
  by (simp add: proc_defs Let_def)

text \<open>
  C7, as the claim states it, fails: with standard input not a terminal and standard
  output a terminal, an admitted run starts the resize watcher and the output pump and
  never calls \<open>setup_sighandlers\<close>. When the first relay task starts the quit signals still
  have their default disposition, so an interrupt delivered then terminates the process
  without the handler function being entered.
\<close>

theorem C7_counterexample:
  "read_int (example_world False True False 0) 0 = 0
   \<and> list_ex is_pump
        (fst (su_client_main (example_world False True False 0) [''su''] 1 default_req))
   \<and> filter is_setup
        (fst (su_client_main (example_world False True False 0) [''su''] 1 default_req)) = []
   \<and> \<not> armed (replay
        (takeWhile (\<lambda>e. \<not> is_relay e)
          (fst (su_client_main (example_world False True False 0) [''su''] 1 default_req)))
        example_proc)
   \<and> handler_runs (deliver SIGINT (replay
        (takeWhile (\<lambda>e. \<not> is_relay e)
          (fst (su_client_main (example_world False True False 0) [''su''] 1 default_req)))
        example_proc)) = 0
   \<and> \<not> alive (deliver SIGINT (replay
        (takeWhile (\<lambda>e. \<not> is_relay e)
          (fst (su_client_main (example_world False True False 0) [''su''] 1 default_req)))
        example_proc))"
  by (simp add: example_defs run_defs proc_defs replay_def)

text \<open>
  C7, amended. An admitted run calls \<open>setup_sighandlers(sighandler)\<close> exactly when standard
  input is a terminal, that is, exactly when it starts the input pump, and then once. In such a run the
  call comes ahead of every relay task, and from the start of the first relay task to the
  end of the run the handler function is installed for all seven quit signals: one of them
  delivered at any of these points enters the handler function.
\<close>

theorem C7_handler_with_input_pump:
  assumes "read_int w 0 = 0" and "alive p" and "s \<in> set quit_list"
  shows "case su_client_main w argv optind req of (t, rc) \<Rightarrow>
      filter is_setup t =
        (if isatty w STDIN_FILENO then [SetupSighandlers Fn_sighandler] else [])
    \<and> (isatty w STDIN_FILENO \<longrightarrow>
         before is_setup is_relay t
       \<and> (\<forall>n. length (takeWhile (\<lambda>e. \<not> is_relay e) t) \<le> n \<longrightarrow>
              armed (replay (take n t) p)
            \<and> handler_runs (deliver s (replay (take n t) p)) = handler_runs p + 1))"
proof -
  define hs where "hs = t_handshake w (fst (positional w argv optind req))"
  define rest where "rest =
    (if isatty w STDOUT_FILENO
     then [WatchSigwinchAsync STDOUT_FILENO (fst (pts_open w)),
           PumpStdoutBlocking (fst (pts_open w))]
     else [])
    @ [ReadInt (connect_daemon w) (read_int w 1), Close (connect_daemon w)]"
  define t where "t =
    hs @ (if isatty w STDIN_FILENO
          then [SetupSighandlers Fn_sighandler, PumpStdinAsync (fst (pts_open w))] else [])
       @ rest"
  have run: "su_client_main w argv optind req = (t, read_int w 1)"
    unfolding t_def hs_def rest_def using run_admitted [OF assms(1), of argv optind req]
    by (simp add: t_relay_def)
  have hs_relay: "\<forall>x\<in>set hs. \<not> is_relay x"
    unfolding hs_def using no_relay_handshake by blast
  have hs_setup: "\<forall>x\<in>set hs. \<not> is_setup x"
    unfolding hs_def using setup_handshake [of w] by (simp add: filter_empty_conv)
  have rest_setup: "\<forall>x\<in>set rest. \<not> is_setup x"
    by (auto simp add: rest_def)
  have setups: "filter is_setup t =
      (if isatty w STDIN_FILENO then [SetupSighandlers Fn_sighandler] else [])"
    using hs_setup rest_setup by (simp add: t_def filter_empty_conv)
  have tty: "before is_setup is_relay t
       \<and> (\<forall>n. length (takeWhile (\<lambda>e. \<not> is_relay e) t) \<le> n \<longrightarrow>
              armed (replay (take n t) p)
            \<and> handler_runs (deliver s (replay (take n t) p)) = handler_runs p + 1)"
    if tin: "isatty w STDIN_FILENO"
  proof -
    let ?pump = "PumpStdinAsync (fst (pts_open w))"
    have t_eq: "t = hs @ SetupSighandlers Fn_sighandler # ?pump # rest"
      using tin by (simp add: t_def)
    have tw_setup: "takeWhile (\<lambda>e. \<not> is_setup e) t = hs"
      unfolding t_eq using hs_setup by simp
    have tw_relay: "takeWhile (\<lambda>e. \<not> is_relay e) t = hs @ [SetupSighandlers Fn_sighandler]"
      unfolding t_eq using hs_relay by simp
    have b: "before is_setup is_relay t"
      using hs_relay by (simp add: before_def tw_setup list_ex_iff) (simp add: t_eq)
    have later: "armed (replay (take n t) p)
        \<and> handler_runs (deliver s (replay (take n t) p)) = handler_runs p + 1"
      if n: "length (takeWhile (\<lambda>e. \<not> is_relay e) t) \<le> n" for n
    proof -
      from n have "Suc (length hs) \<le> n" by (simp add: tw_relay)
      then obtain k where k: "n = Suc (length hs + k)"
        by (metis le_Suc_ex add_Suc)
      have "take n t = hs @ SetupSighandlers Fn_sighandler # take k (?pump # rest)"
        unfolding t_eq k by simp
      then have "replay (take n t) p =
          replay (take k (?pump # rest)) (setup_sighandlers Fn_sighandler (replay hs p))"
        by (simp only: replay_append replay_Cons effect.simps)
      moreover have "\<forall>e\<in>set (?pump # rest). \<not> is_setup e"
        using rest_setup by simp
      then have "\<forall>e\<in>set (take k (?pump # rest)). \<not> is_setup e"
        by (meson in_set_takeD)
      ultimately have a: "armed (replay (take n t) p)"
        by (simp add: armed_replay armed_setup)
      have l: "alive (replay (take n t) p)"
        using assms(2) by (simp add: replay_fields)
      have "handler_runs (deliver s (replay (take n t) p))
          = handler_runs (replay (take n t) p) + 1"
        by (simp add: deliver_armed [OF a l assms(3)] sighandler_fields)
      with a show ?thesis by (simp add: replay_fields)
    qed
    from b later show ?thesis by blast
  qed
  from setups tty show ?thesis by (simp add: run)
qed

theorem C7_handler_with_input_pump_witness:
  "read_int (example_world True True False 0) 0 = 0
   \<and> alive example_proc \<and> SIGHUP \<in> set quit_list
   \<and> isatty (example_world True True False 0) STDIN_FILENO
   \<and> takeWhile (\<lambda>e. \<not> is_relay e)
        (fst (su_client_main (example_world True True False 0) [''su''] 1 default_req))
      = take 15 (fst (su_client_main (example_world True True False 0) [''su''] 1 default_req))
   \<and> armed (replay
        (take 15 (fst (su_client_main (example_world True True False 0) [''su''] 1 default_req)))
        example_proc)
   \<and> handler_runs (deliver SIGHUP (replay
        (take 15 (fst (su_client_main (example_world True True False 0) [''su''] 1 default_req)))
        example_proc)) = 1"
  using C7_handler_with_input_pump
    [of "example_world True True False 0" example_proc SIGHUP "[''su'']" 1 default_req]
  by (simp add: example_defs run_defs proc_defs replay_def)

text \<open>
  C8, as the claim states it, fails: in a run with all three streams terminals the
  connection is opened first, and \<open>pts_open\<close> is called after it, not before.
\<close>

theorem C8_counterexample:
  "any_tty (example_world True True True 0)
   \<and> before is_connect is_pts_open
       (fst (su_client_main (example_world True True True 0) [''su''] 1 default_req))
   \<and> \<not> before is_pts_open is_connect
       (fst (su_client_main (example_world True True True 0) [''su''] 1 default_req))"
  by (simp add: before_def any_tty_def example_defs run_defs)

text \<open>
  C8, amended. In every run that needs a pseudo-terminal the first ten events are: the
  connection to the daemon, the request code, the four scalars, the shell, the command,
  the three probes, the one call of \<open>pts_open\<close>, and the write of the slave path. So the
  pseudo-terminal is allocated after the attachment probe and after the connection has
  been opened and the request written, and before its slave path is sent.
  \<open>su_client_main\<close> itself closes one descriptor only, the connection, at the end of an
  admitted run.
\<close>

theorem C8_pty_after_connect:
  assumes "any_tty w"
  shows "case su_client_main w argv optind req of (t, rc) \<Rightarrow>
     (let r = fst (positional w argv optind req); fd = connect_daemon w in
        take 10 t =
          [ConnectDaemon fd,
           WriteInt fd (SUPERUSER w),
           XWrite fd (le32 (uid r) @ le32 (login r) @ le32 (keepenv r) @ le32 (mount_master r)),
           WriteString fd (shell r),
           WriteString fd (command r),
           Isatty STDIN_FILENO, Isatty STDOUT_FILENO, Isatty STDERR_FILENO,
           PtsOpen (fst (pts_open w)) (snd (pts_open w)),
           WriteString fd (snd (pts_open w))]
      \<and> filter is_pts_open t = [PtsOpen (fst (pts_open w)) (snd (pts_open w))]
      \<and> before is_probe is_pts_open t
      \<and> before is_connect is_pts_open t
      \<and> \<not> before is_pts_open is_connect t
      \<and> filter is_close t = (if read_int w 0 = 0 then [Close fd] else []))"
proof (cases rule: run_cases [of w argv optind req])
  case denied
  then show ?thesis
    using assms
    by (simp add: Let_def take_handshake before_handshake pts_opens_handshake closes_handshake
        del: take_append)
next
  case admitted
  then show ?thesis
    using assms
    by (simp add: Let_def take_handshake before_handshake pts_opens_handshake pts_opens_relay
        closes_handshake closes_relay del: take_append)
qed

theorem C8_pty_after_connect_witness:
  "any_tty (example_world True True True 0)
   \<and> take 10 (fst (su_client_main (example_world True True True 0) [''su''] 1 default_req)) =
       [ConnectDaemon 3, WriteInt 3 1,
        XWrite 3 [0, 0, 0, 0, 0, 0, 0, 0, 0, 0, 0, 0, 0, 0, 0, 0],
        WriteString 3 ''/system/bin/sh'', WriteString 3 [],
        Isatty 0, Isatty 1, Isatty 2, PtsOpen 4 ''/dev/pts/0'',
        WriteString 3 ''/dev/pts/0'']
   \<and> filter is_close (fst (su_client_main (example_world True True True 0) [''su''] 1 default_req))
       = [Close 3]"
  using C8_pty_after_connect [of "example_world True True True 0" "[''su'']" 1 default_req]
  by (simp add: any_tty_def example_defs run_defs)




text \<open>
  C10. The code breaks the claim where the allocation fails. In every admitted run in
  which standard error is a terminal and standard input and standard output are not, the
  whole run is the one of \<open>run_stderr_only\<close>: no pump or resize watcher is started,
  \<open>setup_sighandlers\<close> is not called, and the final status is read right after the verdict.
  But the value of \<open>pts_open\<close> is never tested (line 208): with no pseudo-terminal to be
  had, the client has allocated nothing, writes an empty slave path with the sentinel
  for standard error, and goes on to the end.
\<close>

theorem C10_stderr_only_without_pty:
  "read_int (no_pty_world False False True 0) 0 = 0
   \<and> isatty (no_pty_world False False True 0) STDERR_FILENO
   \<and> pts_open (no_pty_world False False True 0) = (- 1, [])
   \<and> su_client_main (no_pty_world False False True 0) [''su''] 1 default_req =
       ([ConnectDaemon 3, WriteInt 3 1,
         XWrite 3 [0, 0, 0, 0, 0, 0, 0, 0, 0, 0, 0, 0, 0, 0, 0, 0],
         WriteString 3 ''/system/bin/sh'', WriteString 3 [],
         Isatty 0, Isatty 1, Isatty 2, PtsOpen (- 1) [],
         WriteString 3 [], SendFd 3 0, SendFd 3 1, SendFd 3 (- 1),
         ReadInt 3 0, ReadInt 3 42, Close 3], 42)"
  by (simp add: no_pty_world_def example_defs run_defs)

end
